theory Spec2Isabelle
  imports Main
begin

section \<open>Python values, exceptions and list objects\<close>

text \<open>
  The methods of \<open>SBrainVirtualMachine\<close> (pysbrain/lib.py) take arbitrary Python values
  and test them with \<open>type(value) is not int\<close>. A value is modelled by its exact type:
  \<open>PyInt\<close> is an object whose type is exactly \<open>int\<close> (Python integers are unbounded, hence
  \<open>int\<close>); a \<open>bool\<close> has type \<open>bool\<close>, so the test rejects it as it rejects strings,
  \<open>None\<close> and objects of any other type (\<open>PyOther\<close>, tagged with the type's name).
\<close>

datatype pyval = PyInt int | PyBool bool | PyStr string | PyNone | PyOther string

fun type_is_int :: "pyval \<Rightarrow> bool" where
  "type_is_int (PyInt n) = True"
| "type_is_int v = False"

fun int_of :: "pyval \<Rightarrow> int" where
  "int_of (PyInt n) = n"
| "int_of v = 0"

text \<open>The exceptions the code can raise.\<close>

datatype error = TypeError | ValueError | IndexError

text \<open>
  Python lists are mutable objects with an identity: \<open>load_data_tape\<close> stores the caller's
  list itself (no copy), and \<open>write_data_t\<close>, \<open>push_data_s\<close> and \<open>pop_data_s\<close> mutate a list
  in place. The list objects therefore live in a store, addressed by reference; an
  attribute that holds a list holds its reference. The tapes and stacks hold integers
  (the docstrings: "a list of ints").
\<close>

type_synonym ref = nat

type_synonym store = "ref \<Rightarrow> int list"

text \<open>
  A store in which every address holds the empty list; the caller's own lists are put
  into it with a function update, \<open>empty_store(9 := [1, 2])\<close>.
\<close>

definition empty_store :: store where
  "empty_store = (\<lambda>r. [])"

text \<open>
  Indexing a list with a Python integer: a negative index counts from the end, and an
  index outside \<open>-len .. len - 1\<close> raises IndexError.
\<close>

definition py_index :: "int list \<Rightarrow> int \<Rightarrow> error + nat" where
  "py_index xs i =
     (let n = int (length xs); j = (if i < 0 then i + n else i)
      in if 0 \<le> j \<and> j < n then Inr (nat j) else Inl IndexError)"

definition getitem :: "int list \<Rightarrow> int \<Rightarrow> error + int" where
  "getitem xs i = (case py_index xs i of Inl e \<Rightarrow> Inl e | Inr k \<Rightarrow> Inr (xs ! k))"

definition setitem :: "int list \<Rightarrow> int \<Rightarrow> int \<Rightarrow> error + int list" where
  "setitem xs i v = (case py_index xs i of Inl e \<Rightarrow> Inl e | Inr k \<Rightarrow> Inr (xs[k := v]))"

text \<open>\<open>list.pop()\<close>: removes and returns the last element; IndexError on an empty list.\<close>

definition list_pop :: "int list \<Rightarrow> error + (int \<times> int list)" where
  "list_pop xs = (if xs = [] then Inl IndexError else Inr (last xs, butlast xs))"

section \<open>The virtual machine object\<close>

text \<open>
  The attributes of the object, under the source's names (\<open>_len_data_t\<close> is \<open>len_data_t\<close>
  and so on: an Isabelle name cannot start with an underscore), together with the store
  of the list objects.
\<close>

record vm =
  heap :: store
  data_t :: ref
  len_data_t :: int
  data_s :: ref
  len_data_s :: int
  exec_t :: ref
  len_exec_t :: int
  jump_s :: ref
  len_jump_s :: int
  data_p :: int
  inst_p :: int
  jump_p :: int
  auxi_r :: int

text \<open>
  A method call returns a value or raises, and leaves a state behind in both cases.
\<close>

type_synonym result = "(error + pyval) \<times> vm"

subsection \<open>\<open>__init__\<close>\<close>

text \<open>
  Lines 10 to 20 of \<open>__init__\<close> allocate four fresh one-cell lists \<open>[0]\<close> (at the
  addresses \<open>n .. n + 3\<close>, \<open>n\<close> being the first free address of the store) and set the four
  counters. Line 22 is \<open>self.data_p, self.inst_p, self.jump_p, self.auxi_r = 0\<close>: it
  unpacks the integer 0 into four targets. \<open>init_fields\<close> is the object as lines 10 to 20
  leave it, given the values of the four registers.
\<close>

definition init_fields :: "store \<Rightarrow> ref \<Rightarrow> int \<Rightarrow> int \<Rightarrow> int \<Rightarrow> int \<Rightarrow> vm" where
  "init_fields h n dp ip jp ar =
     \<lparr> heap = h(n := [0], n + 1 := [0], n + 2 := [0], n + 3 := [0]),
       data_t = n, len_data_t = 1,
       data_s = n + 1, len_data_s = 0,
       exec_t = n + 2, len_exec_t = 1,
       jump_s = n + 3, len_jump_s = 0,
       data_p = dp, inst_p = ip, jump_p = jp, auxi_r = ar \<rparr>"

text \<open>
  Unpacking an integer into four targets: an \<open>int\<close> is not iterable, so the assignment
  raises TypeError whatever the integer is.
\<close>

definition unpack4 :: "int \<Rightarrow> error + (int \<times> int \<times> int \<times> int)" where
  "unpack4 v = Inl TypeError"

definition init :: "store \<Rightarrow> ref \<Rightarrow> error + vm" where
  "init h n =
     (case unpack4 0 of
        Inl e \<Rightarrow> Inl e
      | Inr (dp, ip, jp, ar) \<Rightarrow> Inr (init_fields h n dp ip jp ar))"

subsection \<open>The methods\<close>

text \<open>The argument of the two loaders is a list object, given by its reference.\<close>

definition load_data_tape :: "ref \<Rightarrow> vm \<Rightarrow> result" where
  "load_data_tape data_tape s =
     (Inr PyNone,
      s\<lparr>data_t := data_tape, len_data_t := int (length (heap s data_tape)), data_p := 0\<rparr>)"

definition load_executable_tape :: "ref \<Rightarrow> vm \<Rightarrow> result" where
  "load_executable_tape exec_tape s =
     (Inr PyNone,
      s\<lparr>exec_t := exec_tape, len_exec_t := int (length (heap s exec_tape)), inst_p := 0\<rparr>)"

definition write_data_t :: "pyval \<Rightarrow> vm \<Rightarrow> result" where
  "write_data_t v s =
     (if \<not> type_is_int v then (Inl ValueError, s)
      else case setitem (heap s (data_t s)) (data_p s) (int_of v) of
             Inl e \<Rightarrow> (Inl e, s)
           | Inr xs \<Rightarrow> (Inr PyNone, s\<lparr>heap := (heap s)(data_t s := xs)\<rparr>))"

text \<open>A Python function that falls off its end returns \<open>None\<close>.\<close>

definition read_data_t :: "vm \<Rightarrow> result" where
  "read_data_t s =
     (if len_data_t s \<ge> data_p s
      then case getitem (heap s (data_t s)) (data_p s) of
             Inl e \<Rightarrow> (Inl e, s)
           | Inr x \<Rightarrow> (Inr (PyInt x), s)
      else (Inr PyNone, s))"

definition push_data_s :: "pyval \<Rightarrow> vm \<Rightarrow> result" where
  "push_data_s v s =
     (if \<not> type_is_int v then (Inl ValueError, s)
      else (Inr PyNone,
            s\<lparr>heap := (heap s)(data_s s := heap s (data_s s) @ [int_of v]),
              len_data_s := len_data_s s + 1\<rparr>))"

text \<open>
  \<open>pop_data_s\<close> decrements the counter before it calls \<open>list.pop()\<close>, so a pop that
  raises leaves the counter decremented.
\<close>

definition pop_data_s :: "vm \<Rightarrow> result" where
  "pop_data_s s =
     (if len_data_s s > 0
      then let s1 = s\<lparr>len_data_s := len_data_s s - 1\<rparr>
           in case list_pop (heap s1 (data_s s1)) of
                Inl e \<Rightarrow> (Inl e, s1)
              | Inr (x, xs) \<Rightarrow> (Inr (PyInt x), s1\<lparr>heap := (heap s1)(data_s s1 := xs)\<rparr>)
      else (Inr (PyInt 0), s))"

subsection \<open>Sequences of calls\<close>

text \<open>
  A caller's session with one machine: any of the six methods, with any arguments, in any
  order. A call that raises leaves its state behind and the session goes on (the caller
  caught the exception).
\<close>

datatype call =
  LoadDataTape ref
| LoadExecutableTape ref
| WriteDataT pyval
| ReadDataT
| PushDataS pyval
| PopDataS

fun do_call :: "call \<Rightarrow> vm \<Rightarrow> result" where
  "do_call (LoadDataTape r) s = load_data_tape r s"
| "do_call (LoadExecutableTape r) s = load_executable_tape r s"
| "do_call (WriteDataT v) s = write_data_t v s"
| "do_call ReadDataT s = read_data_t s"
| "do_call (PushDataS v) s = push_data_s v s"
| "do_call PopDataS s = pop_data_s s"

fun run_calls :: "call list \<Rightarrow> vm \<Rightarrow> vm" where
  "run_calls [] s = s"
| "run_calls (c # cs) s = run_calls cs (snd (do_call c s))"

text \<open>\<open>n\<close> consecutive calls of \<open>pop_data_s\<close>, with the outcome of each.\<close>

fun pop_n :: "nat \<Rightarrow> vm \<Rightarrow> (error + pyval) list \<times> vm" where
  "pop_n 0 s = ([], s)"
| "pop_n (Suc n) s =
     (let (r, s1) = pop_data_s s; (rs, s2) = pop_n n s1 in (r # rs, s2))"

subsection \<open>The invariant of the two stacks\<close>

text \<open>
  \<open>__init__\<close> gives each stack the list \<open>[0]\<close> and the depth 0: the list holds one cell
  below the counted ones. The two stacks are different list objects, and the depth of the
  data stack is never negative.
\<close>

definition stack_inv :: "vm \<Rightarrow> bool" where
  "stack_inv s =
     (data_s s \<noteq> jump_s s
      \<and> 0 \<le> len_data_s s
      \<and> int (length (heap s (data_s s))) = len_data_s s + 1
      \<and> int (length (heap s (jump_s s))) = len_jump_s s + 1)"

section \<open>The loop-enter instruction\<close>







section \<open>Properties of the machine\<close>

subsection \<open>Indexing\<close>

lemma py_index_in_range:
  "0 \<le> i \<Longrightarrow> i < int (length xs) \<Longrightarrow> py_index xs i = Inr (nat i)"
  by (simp add: py_index_def)

lemma py_index_beyond:
  "int (length xs) \<le> i \<Longrightarrow> py_index xs i = Inl IndexError"
  by (simp add: py_index_def)

lemma py_index_bound: "py_index xs i = Inr k \<Longrightarrow> k < length xs"
  by (auto simp: py_index_def Let_def split: if_splits)

lemma setitem_length: "setitem xs i v = Inr ys \<Longrightarrow> length ys = length xs"
  by (auto simp: setitem_def split: sum.splits)

subsection \<open>Reading the data tape\<close>

text \<open>
  C1. \<open>read_data_t\<close> is claimed to return 0, without raising, when \<open>data_p\<close> is at or beyond
  the length of the data tape. The guard of the source is \<open>_len_data_t >= data_p\<close>, so a
  read at exactly the length indexes the list and raises IndexError: so it is after
  \<open>load_data_tape([])\<close> (length 0, \<open>data_p\<close> 0) and on the one-cell tape with \<open>data_p = 1\<close>.
  Beyond the length the method falls off its end and returns \<open>None\<close>, not 0.
\<close>

theorem read_data_t_boundary:
  "fst (read_data_t (snd (load_data_tape 9 (init_fields empty_store 0 0 0 0 0))))
     = Inl IndexError
   \<and> fst (read_data_t (init_fields empty_store 0 1 0 0 0)) = Inl IndexError
   \<and> fst (read_data_t (init_fields empty_store 0 2 0 0 0)) = Inr PyNone"
  by (simp add: read_data_t_def load_data_tape_def init_fields_def empty_store_def
        getitem_def py_index_def)

text \<open>
  At a valid index, from 0 up to the length of the tape (excluded) and not above the
  length counter, \<open>read_data_t\<close> returns the stored cell and leaves the state as it was.
\<close>

theorem read_data_t_valid:
  "0 \<le> data_p s \<Longrightarrow> data_p s < int (length (heap s (data_t s))) \<Longrightarrow>
   data_p s \<le> len_data_t s \<Longrightarrow>
   read_data_t s = (Inr (PyInt (heap s (data_t s) ! nat (data_p s))), s)"
  by (simp add: read_data_t_def getitem_def py_index_in_range)

theorem read_data_t_valid_witness:
  "read_data_t (init_fields empty_store 0 0 0 0 0)
     = (Inr (PyInt 0), init_fields empty_store 0 0 0 0 0)"
  using read_data_t_valid [of "init_fields empty_store 0 0 0 0 0"]
  by (simp add: init_fields_def)

text \<open>At such an index, a read after an integer write returns the value written.\<close>

theorem write_then_read:
  "0 \<le> data_p s \<Longrightarrow> data_p s < int (length (heap s (data_t s))) \<Longrightarrow>
   data_p s \<le> len_data_t s \<Longrightarrow>
   fst (write_data_t (PyInt v) s) = Inr PyNone
   \<and> fst (read_data_t (snd (write_data_t (PyInt v) s))) = Inr (PyInt v)"
  by (simp add: write_data_t_def setitem_def read_data_t_def getitem_def py_index_in_range)

theorem write_then_read_witness:
  "fst (read_data_t (snd (write_data_t (PyInt 5) (init_fields empty_store 0 0 0 0 0))))
     = Inr (PyInt 5)"
  using write_then_read [of "init_fields empty_store 0 0 0 0 0" 5]
  by (simp add: init_fields_def)

subsection \<open>Construction\<close>

text \<open>
  C2 (as amended). The field initialisation of the constructor gives a one-cell data tape
  \<open>[0]\<close> with length counter 1, a one-cell executable tape \<open>[0]\<close> with length counter 1,
  and a data stack and a jump stack of depth 0, each over its own list \<open>[0]\<close>; the four
  lists are four different objects.
\<close>

theorem init_fields_lifecycle:
  "heap (init_fields h n dp ip jp ar) (data_t (init_fields h n dp ip jp ar)) = [0]
   \<and> len_data_t (init_fields h n dp ip jp ar) = 1
   \<and> heap (init_fields h n dp ip jp ar) (data_s (init_fields h n dp ip jp ar)) = [0]
   \<and> len_data_s (init_fields h n dp ip jp ar) = 0
   \<and> heap (init_fields h n dp ip jp ar) (exec_t (init_fields h n dp ip jp ar)) = [0]
   \<and> len_exec_t (init_fields h n dp ip jp ar) = 1
   \<and> heap (init_fields h n dp ip jp ar) (jump_s (init_fields h n dp ip jp ar)) = [0]
   \<and> len_jump_s (init_fields h n dp ip jp ar) = 0
   \<and> distinct [data_t (init_fields h n dp ip jp ar), data_s (init_fields h n dp ip jp ar),
                exec_t (init_fields h n dp ip jp ar), jump_s (init_fields h n dp ip jp ar)]"
  by (simp add: init_fields_def)

text \<open>
  The claim as stated fails: the constructor raises TypeError at its last line, and the
  executable tape its fields set up is \<open>[0]\<close>, of length 1, not the empty tape.
\<close>

theorem init_counterexample:
  "init empty_store 0 = Inl TypeError
   \<and> heap (init_fields empty_store 0 0 0 0 0) (exec_t (init_fields empty_store 0 0 0 0 0)) = [0]
   \<and> len_exec_t (init_fields empty_store 0 0 0 0 0) = 1"
  by (simp add: init_def unpack4_def init_fields_def)

subsection \<open>The depth counters\<close>

lemma stack_inv_init: "stack_inv (init_fields h n dp ip jp ar)"
  by (simp add: stack_inv_def init_fields_def)

lemma stack_inv_load_data: "stack_inv s \<Longrightarrow> stack_inv (snd (load_data_tape r s))"
  by (simp add: stack_inv_def load_data_tape_def)

lemma stack_inv_load_exec: "stack_inv s \<Longrightarrow> stack_inv (snd (load_executable_tape r s))"
  by (simp add: stack_inv_def load_executable_tape_def)

lemma stack_inv_write: "stack_inv s \<Longrightarrow> stack_inv (snd (write_data_t v s))"
  by (auto simp: stack_inv_def write_data_t_def dest: setitem_length split: sum.splits)

lemma stack_inv_read: "stack_inv s \<Longrightarrow> stack_inv (snd (read_data_t s))"
  by (auto simp: stack_inv_def read_data_t_def split: sum.splits)

lemma stack_inv_push: "stack_inv s \<Longrightarrow> stack_inv (snd (push_data_s v s))"
  by (auto simp: stack_inv_def push_data_s_def)

lemma stack_inv_pop: "stack_inv s \<Longrightarrow> stack_inv (snd (pop_data_s s))"
  by (auto simp: stack_inv_def pop_data_s_def list_pop_def Let_def)

lemma stack_inv_do_call: "stack_inv s \<Longrightarrow> stack_inv (snd (do_call c s))"
  by (cases c)
     (simp_all add: stack_inv_load_data stack_inv_load_exec stack_inv_write stack_inv_read
        stack_inv_push stack_inv_pop)

lemma stack_inv_run_calls: "stack_inv s \<Longrightarrow> stack_inv (run_calls cs s)"
  by (induction cs arbitrary: s) (simp_all add: stack_inv_do_call)

lemma stack_inv_nonempty:
  "stack_inv s \<Longrightarrow> 0 < len_data_s s \<Longrightarrow> heap s (data_s s) \<noteq> []"
  by (auto simp: stack_inv_def)

text \<open>
  C3 (as amended). In every state reached from the constructor's fields by any sequence
  of \<open>load_data_tape\<close>, \<open>load_executable_tape\<close>, \<open>write_data_t\<close>, \<open>read_data_t\<close>,
  \<open>push_data_s\<close> and \<open>pop_data_s\<close> calls, with any arguments, the list \<open>data_s\<close> is exactly
  one cell longer than the depth counter \<open>_len_data_s\<close>, and the list \<open>jump_s\<close> exactly one
  cell longer than \<open>_len_jump_s\<close>: each list keeps the cell 0 the constructor put at its
  bottom, which the counters do not count.
\<close>

theorem stack_depth_invariant:
  "int (length (heap (run_calls cs (init_fields h n dp ip jp ar))
                  (data_s (run_calls cs (init_fields h n dp ip jp ar)))))
     = len_data_s (run_calls cs (init_fields h n dp ip jp ar)) + 1
   \<and> int (length (heap (run_calls cs (init_fields h n dp ip jp ar))
                    (jump_s (run_calls cs (init_fields h n dp ip jp ar)))))
     = len_jump_s (run_calls cs (init_fields h n dp ip jp ar)) + 1"
proof -
  have "stack_inv (run_calls cs (init_fields h n dp ip jp ar))"
    by (rule stack_inv_run_calls) (rule stack_inv_init)
  then show ?thesis by (simp add: stack_inv_def)
qed

text \<open>
  The claim as stated fails in the first state already: after the constructor's fields
  are set the list \<open>data_s\<close> has length 1 and the counter is 0; and after a push the list
  \<open>jump_s\<close> still has length 1 while its counter is 0.
\<close>

theorem stack_depth_counterexample:
  "int (length (heap (run_calls [] (init_fields empty_store 0 0 0 0 0))
                  (data_s (run_calls [] (init_fields empty_store 0 0 0 0 0))))) = 1
   \<and> len_data_s (run_calls [] (init_fields empty_store 0 0 0 0 0)) = 0
   \<and> int (length (heap (run_calls [PushDataS (PyInt 7)] (init_fields empty_store 0 0 0 0 0))
                    (jump_s (run_calls [PushDataS (PyInt 7)] (init_fields empty_store 0 0 0 0 0)))))
       = 1
   \<and> len_jump_s (run_calls [PushDataS (PyInt 7)] (init_fields empty_store 0 0 0 0 0)) = 0"
  by (simp add: init_fields_def push_data_s_def)

subsection \<open>Popping\<close>

lemma pop_empty: "len_data_s s \<le> 0 \<Longrightarrow> pop_data_s s = (Inr (PyInt 0), s)"
  by (simp add: pop_data_s_def)

lemma pop_n_empty: "len_data_s s \<le> 0 \<Longrightarrow> pop_n n s = (replicate n (Inr (PyInt 0)), s)"
  by (induction n) (simp_all add: pop_empty)

text \<open>
  C4. On a machine whose data stack is empty (depth counter 0), any number \<open>n\<close> of
  consecutive \<open>pop_data_s\<close> calls returns 0 each time and leaves the whole state, so the
  depth 0 and the stack contents, as it was. On a non-empty stack (depth counter above 0,
  the list ending in the most recently pushed value \<open>x\<close>), \<open>pop_data_s\<close> returns \<open>x\<close>,
  removes it from the list and decrements the counter. In every state reached from the
  constructor's fields by a sequence of calls, a depth counter above 0 is enough: the pop
  returns the last cell of the list and does not raise.
\<close>

theorem pop_data_s_policy:
  "(len_data_s s = 0 \<longrightarrow> pop_n n s = (replicate n (Inr (PyInt 0)), s))
   \<and> (0 < len_data_s s \<and> heap s (data_s s) = xs @ [x] \<longrightarrow>
        pop_data_s s =
          (Inr (PyInt x),
           s\<lparr>len_data_s := len_data_s s - 1, heap := (heap s)(data_s s := xs)\<rparr>))
   \<and> (0 < len_data_s (run_calls cs (init_fields h m dp ip jp ar)) \<longrightarrow>
        fst (pop_data_s (run_calls cs (init_fields h m dp ip jp ar)))
          = Inr (PyInt (last (heap (run_calls cs (init_fields h m dp ip jp ar))
                                (data_s (run_calls cs (init_fields h m dp ip jp ar)))))))"
proof -
  have "stack_inv (run_calls cs (init_fields h m dp ip jp ar))"
    by (rule stack_inv_run_calls) (rule stack_inv_init)
  then have "0 < len_data_s (run_calls cs (init_fields h m dp ip jp ar)) \<Longrightarrow>
      heap (run_calls cs (init_fields h m dp ip jp ar))
        (data_s (run_calls cs (init_fields h m dp ip jp ar))) \<noteq> []"
    by (rule stack_inv_nonempty)
  then show ?thesis
    by (simp add: pop_n_empty pop_data_s_def list_pop_def Let_def)
qed

theorem pop_data_s_policy_witness:
  "pop_n 3 (init_fields empty_store 0 0 0 0 0)
     = ([Inr (PyInt 0), Inr (PyInt 0), Inr (PyInt 0)], init_fields empty_store 0 0 0 0 0)
   \<and> fst (pop_data_s (snd (push_data_s (PyInt 8)
             (snd (push_data_s (PyInt 7) (init_fields empty_store 0 0 0 0 0))))))
     = Inr (PyInt 8)
   \<and> fst (pop_data_s (run_calls [PushDataS (PyInt 7), PushDataS (PyInt 8)]
             (init_fields empty_store 0 0 0 0 0)))
     = Inr (PyInt 8)"
  using pop_data_s_policy [of "init_fields empty_store 0 0 0 0 0" 3]
    pop_data_s_policy [of "snd (push_data_s (PyInt 8)
             (snd (push_data_s (PyInt 7) (init_fields empty_store 0 0 0 0 0))))" 0 "[0, 7]" 8]
    pop_data_s_policy [of _ _ _ _ "[PushDataS (PyInt 7), PushDataS (PyInt 8)]"
      empty_store 0 0 0 0 0]
  by (simp add: init_fields_def push_data_s_def numeral_3_eq_3)

subsection \<open>Values that are not integers\<close>

text \<open>
  C5. For every value \<open>v\<close> whose type is not \<open>int\<close>, \<open>write_data_t(v)\<close> and
  \<open>push_data_s(v)\<close> raise the type-mismatch error (in the source a ValueError) and leave
  the whole state, so the data tape, the data stack, its depth counter and the registers,
  as it was; for an integer neither method raises that error.
\<close>

theorem non_int_rejected:
  "(\<not> type_is_int v \<longrightarrow>
      write_data_t v s = (Inl ValueError, s) \<and> push_data_s v s = (Inl ValueError, s))
   \<and> (type_is_int v \<longrightarrow>
      fst (write_data_t v s) \<noteq> Inl ValueError \<and> fst (push_data_s v s) \<noteq> Inl ValueError)"
  by (auto simp: write_data_t_def push_data_s_def setitem_def py_index_def Let_def
        split: sum.splits)

theorem non_int_rejected_witness:
  "write_data_t (PyStr ''a'') (init_fields empty_store 0 0 0 0 0)
     = (Inl ValueError, init_fields empty_store 0 0 0 0 0)
   \<and> push_data_s (PyBool True) (init_fields empty_store 0 0 0 0 0)
     = (Inl ValueError, init_fields empty_store 0 0 0 0 0)
   \<and> fst (write_data_t (PyInt 3) (init_fields empty_store 0 0 0 0 0)) \<noteq> Inl ValueError
   \<and> fst (push_data_s (PyInt 3) (init_fields empty_store 0 0 0 0 0)) \<noteq> Inl ValueError"
  using non_int_rejected [of "PyStr ''a''" "init_fields empty_store 0 0 0 0 0"]
        non_int_rejected [of "PyBool True" "init_fields empty_store 0 0 0 0 0"]
        non_int_rejected [of "PyInt 3" "init_fields empty_store 0 0 0 0 0"]
  by simp

subsection \<open>Writing to the data tape\<close>

text \<open>
  C6 (as amended). \<open>write_data_t\<close> never grows the data tape. An integer write at an
  index \<open>data_p\<close> from 0 up to the length of the tape (excluded) stores the value in that
  cell; an integer write at an index at or beyond the length raises IndexError and leaves
  the whole state as it was; and after any write, of any value, the tape has the length
  it had.
\<close>

theorem write_data_t_no_growth:
  "(0 \<le> data_p s \<and> data_p s < int (length (heap s (data_t s))) \<longrightarrow>
      write_data_t (PyInt v) s
        = (Inr PyNone,
           s\<lparr>heap := (heap s)(data_t s := (heap s (data_t s))[nat (data_p s) := v])\<rparr>))
   \<and> (int (length (heap s (data_t s))) \<le> data_p s \<longrightarrow>
      write_data_t (PyInt v) s = (Inl IndexError, s))
   \<and> length (heap (snd (write_data_t w s)) (data_t (snd (write_data_t w s))))
       = length (heap s (data_t s))"
  by (auto simp: write_data_t_def setitem_def py_index_in_range py_index_beyond
        dest: setitem_length split: sum.splits)

theorem write_data_t_no_growth_witness:
  "fst (write_data_t (PyInt 5) (init_fields empty_store 0 0 0 0 0)) = Inr PyNone
   \<and> heap (snd (write_data_t (PyInt 5) (init_fields empty_store 0 0 0 0 0))) 0 = [5]
   \<and> write_data_t (PyInt 5) (init_fields empty_store 0 1 0 0 0)
       = (Inl IndexError, init_fields empty_store 0 1 0 0 0)"
  using write_data_t_no_growth [of "init_fields empty_store 0 0 0 0 0" 5]
    write_data_t_no_growth [of "init_fields empty_store 0 1 0 0 0" 5]
  by (simp add: init_fields_def)

text \<open>
  The claim as stated fails: on the one-cell tape a write of the integer 5 at index 3,
  beyond the length, raises IndexError and the state is as before; nothing has grown.
\<close>

theorem write_data_t_growth_counterexample:
  "write_data_t (PyInt 5) (init_fields empty_store 0 3 0 0 0)
     = (Inl IndexError, init_fields empty_store 0 3 0 0 0)
   \<and> heap (init_fields empty_store 0 3 0 0 0) (data_t (init_fields empty_store 0 3 0 0 0)) = [0]"
  by (simp add: write_data_t_def setitem_def py_index_def init_fields_def)

lemma write_data_t_success:
  assumes "write_data_t (PyInt v) s = (Inr PyNone, s')"
  shows "\<exists>k. py_index (heap s (data_t s)) (data_p s) = Inr k
           \<and> s' = s\<lparr>heap := (heap s)(data_t s := (heap s (data_t s))[k := v])\<rparr>"
  using assms by (auto simp: write_data_t_def setitem_def split: sum.splits)

text \<open>
  C10 (as amended). When \<open>write_data_t\<close> succeeds on an integer, it changes one cell of
  one list object, the cell at index \<open>data_p\<close> of the list that is the data tape: every
  other cell of that list and its length, every other list object (so the data stack, the
  jump stack and the executable tape, each when it is not the very list that is the data
  tape), the references, the four counters and the four registers are as before.
\<close>

theorem write_data_t_frame:
  assumes "write_data_t (PyInt v) s = (Inr PyNone, s')"
  shows "(\<exists>k. py_index (heap s (data_t s)) (data_p s) = Inr k
            \<and> k < length (heap s (data_t s))
            \<and> heap s' (data_t s') = (heap s (data_t s))[k := v]
            \<and> (\<forall>j. j \<noteq> k \<longrightarrow> heap s' (data_t s') ! j = heap s (data_t s) ! j))
         \<and> length (heap s' (data_t s')) = length (heap s (data_t s))
         \<and> (\<forall>r. r \<noteq> data_t s \<longrightarrow> heap s' r = heap s r)
         \<and> (data_s s \<noteq> data_t s \<longrightarrow> heap s' (data_s s') = heap s (data_s s))
         \<and> (jump_s s \<noteq> data_t s \<longrightarrow> heap s' (jump_s s') = heap s (jump_s s))
         \<and> (exec_t s \<noteq> data_t s \<longrightarrow> heap s' (exec_t s') = heap s (exec_t s))
         \<and> s'\<lparr>heap := heap s\<rparr> = s"
proof -
  obtain k where k: "py_index (heap s (data_t s)) (data_p s) = Inr k"
    and s': "s' = s\<lparr>heap := (heap s)(data_t s := (heap s (data_t s))[k := v])\<rparr>"
    using write_data_t_success [OF assms] by blast
  have "k < length (heap s (data_t s))"
    using k by (rule py_index_bound)
  with k s' show ?thesis by simp
qed

theorem write_data_t_frame_witness:
  "fst (write_data_t (PyInt 5) (init_fields empty_store 0 0 0 0 0)) = Inr PyNone
   \<and> length (heap (snd (write_data_t (PyInt 5) (init_fields empty_store 0 0 0 0 0)))
                (data_t (snd (write_data_t (PyInt 5) (init_fields empty_store 0 0 0 0 0))))) = 1
   \<and> heap (snd (write_data_t (PyInt 5) (init_fields empty_store 0 0 0 0 0))) 2 = [0]"
proof -
  let ?s = "init_fields empty_store 0 0 0 0 0"
  have ok: "fst (write_data_t (PyInt 5) ?s) = Inr PyNone"
    by (simp add: write_data_t_def setitem_def py_index_def init_fields_def)
  then have w: "write_data_t (PyInt 5) ?s = (Inr PyNone, snd (write_data_t (PyInt 5) ?s))"
    by (simp add: prod_eq_iff)
  have "length (heap ?s (data_t ?s)) = 1" and "(2::nat) \<noteq> data_t ?s" and "heap ?s 2 = [0]"
    by (simp_all add: init_fields_def)
  with ok write_data_t_frame [OF w] show ?thesis
    by simp
qed

text \<open>
  The claim as stated fails when one list is loaded as both tapes: the loaders keep the
  caller's list itself. With the list \<open>[1, 2]\<close> at address 9 loaded by \<open>load_data_tape\<close> and
  by \<open>load_executable_tape\<close>, writing 5 succeeds and the executable tape is \<open>[5, 2]\<close>.
\<close>

theorem write_data_t_frame_counterexample:
  "fst (write_data_t (PyInt 5)
          (snd (load_executable_tape 9
             (snd (load_data_tape 9 (init_fields (empty_store(9 := [1, 2])) 0 0 0 0 0))))))
     = Inr PyNone
   \<and> heap (snd (load_executable_tape 9
             (snd (load_data_tape 9 (init_fields (empty_store(9 := [1, 2])) 0 0 0 0 0)))))
        (exec_t (snd (load_executable_tape 9
             (snd (load_data_tape 9 (init_fields (empty_store(9 := [1, 2])) 0 0 0 0 0))))))
     = [1, 2]
   \<and> heap (snd (write_data_t (PyInt 5)
          (snd (load_executable_tape 9
             (snd (load_data_tape 9 (init_fields (empty_store(9 := [1, 2])) 0 0 0 0 0)))))))
        (exec_t (snd (write_data_t (PyInt 5)
          (snd (load_executable_tape 9
             (snd (load_data_tape 9 (init_fields (empty_store(9 := [1, 2])) 0 0 0 0 0))))))))
     = [5, 2]"
  by (simp add: write_data_t_def setitem_def py_index_def load_data_tape_def
        load_executable_tape_def init_fields_def)

subsection \<open>Loading the tapes\<close>

text \<open>
  C8. For every list of integers \<open>xs\<close> (a list object, at any address \<open>r\<close> of the store),
  \<open>load_data_tape\<close> returns without raising, makes \<open>xs\<close> the contents of the data tape,
  sets the length counter to the length of \<open>xs\<close> and resets \<open>data_p\<close> to 0; and
  \<open>load_executable_tape\<close> does the same with the executable tape and \<open>inst_p\<close>.
\<close>

theorem load_tapes:
  "fst (load_data_tape r (s\<lparr>heap := (heap s)(r := xs)\<rparr>)) = Inr PyNone
   \<and> heap (snd (load_data_tape r (s\<lparr>heap := (heap s)(r := xs)\<rparr>)))
        (data_t (snd (load_data_tape r (s\<lparr>heap := (heap s)(r := xs)\<rparr>)))) = xs
   \<and> len_data_t (snd (load_data_tape r (s\<lparr>heap := (heap s)(r := xs)\<rparr>))) = int (length xs)
   \<and> data_p (snd (load_data_tape r (s\<lparr>heap := (heap s)(r := xs)\<rparr>))) = 0
   \<and> fst (load_executable_tape r (s\<lparr>heap := (heap s)(r := xs)\<rparr>)) = Inr PyNone
   \<and> heap (snd (load_executable_tape r (s\<lparr>heap := (heap s)(r := xs)\<rparr>)))
        (exec_t (snd (load_executable_tape r (s\<lparr>heap := (heap s)(r := xs)\<rparr>)))) = xs
   \<and> len_exec_t (snd (load_executable_tape r (s\<lparr>heap := (heap s)(r := xs)\<rparr>))) = int (length xs)
   \<and> inst_p (snd (load_executable_tape r (s\<lparr>heap := (heap s)(r := xs)\<rparr>))) = 0"
  by (simp add: load_data_tape_def load_executable_tape_def)

subsection \<open>Push, then pop\<close>

text \<open>
  C9. For every state (a depth counter is never negative) and every integer \<open>v\<close>,
  \<open>push_data_s(v)\<close> returns without raising, and the \<open>pop_data_s\<close> that follows returns \<open>v\<close>
  and leaves the state the push started from: the contents of the data stack and its depth
  counter are exactly what they were. In particular it is so in every state reached from
  the constructor's fields by a sequence of calls.
\<close>

theorem push_pop_roundtrip:
  "(0 \<le> len_data_s s \<longrightarrow>
      fst (push_data_s (PyInt v) s) = Inr PyNone
      \<and> pop_data_s (snd (push_data_s (PyInt v) s)) = (Inr (PyInt v), s))
   \<and> fst (push_data_s (PyInt v) (run_calls cs (init_fields h n dp ip jp ar))) = Inr PyNone
   \<and> pop_data_s (snd (push_data_s (PyInt v) (run_calls cs (init_fields h n dp ip jp ar))))
       = (Inr (PyInt v), run_calls cs (init_fields h n dp ip jp ar))"
proof -
  have general: "0 \<le> len_data_s t \<Longrightarrow>
      fst (push_data_s (PyInt v) t) = Inr PyNone
      \<and> pop_data_s (snd (push_data_s (PyInt v) t)) = (Inr (PyInt v), t)" for t
    by (simp add: push_data_s_def pop_data_s_def list_pop_def Let_def)
  have "stack_inv (run_calls cs (init_fields h n dp ip jp ar))"
    by (rule stack_inv_run_calls) (rule stack_inv_init)
  then have "0 \<le> len_data_s (run_calls cs (init_fields h n dp ip jp ar))"
    by (simp add: stack_inv_def)
  with general [of s] general [of "run_calls cs (init_fields h n dp ip jp ar)"]
  show ?thesis by blast
qed

theorem push_pop_roundtrip_witness:
  "(0::int) \<le> len_data_s (init_fields empty_store 0 0 0 0 0)
   \<and> fst (push_data_s (PyInt 7) (init_fields empty_store 0 0 0 0 0)) = Inr PyNone
   \<and> pop_data_s (snd (push_data_s (PyInt 7) (init_fields empty_store 0 0 0 0 0)))
       = (Inr (PyInt 7), init_fields empty_store 0 0 0 0 0)"
proof -
  have h: "0 \<le> len_data_s (init_fields empty_store 0 0 0 0 0)"
    by (simp add: init_fields_def)
  show ?thesis
    using h push_pop_roundtrip [of "init_fields empty_store 0 0 0 0 0" 7] by simp
qed

section \<open>The forward scan finds the matching loop-exit\<close>









end
